theory Spec2Isabelle
  imports Complex_Main "HOL-Library.Word"
begin

section \<open>The voice pipeline of voice_pipeline.py\<close>

text \<open>
  A shallow embedding of \<^verbatim>\<open>src/skills/voice-ai-tutor/scripts/voice_pipeline.py\<close>:
  the metrics object, the four stage functions and the two orchestration functions.

  \<^item> A Python \<^verbatim>\<open>str\<close> is a list of code points (\<open>nat\<close>), so that \<^verbatim>\<open>len\<close> counts
    what Python counts, also for Hebrew text; \<^verbatim>\<open>bytes\<close> is a list of 8-bit words.
  \<^item> The outside of the program (credentials read from the process environment, the
    wall clock, the three provider libraries, the file system) is a record \<open>env\<close> of
    behaviours the code cannot influence.
  \<^item> What the program does to the outside (clock readings taken, provider requests
    sent, files written) is a record \<open>world\<close> that every function takes and returns.
  \<^item> An exception is a value \<open>Inl ex\<close> of a sum type.
  \<^item> \<^verbatim>\<open>time.time()\<close> returns a float; timestamps are idealised as \<open>real\<close>.
  \<^item> \<^verbatim>\<open>print\<close> raises \<^verbatim>\<open>UnicodeEncodeError\<close> for text the encoding of stdout cannot
    encode. The two stage functions whose own failure is at stake, \<^verbatim>\<open>retrieve_context\<close> and
    \<^verbatim>\<open>synthesize_speech\<close>, are modelled with the prints of the text they are given, for a
    stdout that encodes the code points \<open>enc\<close>. The pipelines are modelled for runs in
    which every print succeeds: inside them these two functions are
    \<open>retrieve_context_printed\<close> and \<open>synthesize_speech_printed\<close>, and the prints of the other
    functions are left out. The one exception is \<open>voice_pipeline_streaming_on\<close>, the streaming
    pipeline with the print of the retrieval step.
  \<^item> The constant arguments of the provider calls (model names, voice settings, system
    prompt) are left out.
\<close>

subsection \<open>Strings\<close>

type_synonym pystr = "nat list"
type_synonym bytes = "8 word list"

definition str :: "string \<Rightarrow> pystr" where
  "str s = map of_char s"

text \<open>
  \<^verbatim>\<open>str.strip()\<close> without argument removes leading and trailing whitespace, which for
  \<^verbatim>\<open>str\<close> is the set of code points that CPython's \<^verbatim>\<open>Py_UNICODE_ISSPACE\<close> accepts.
\<close>

definition is_space :: "nat \<Rightarrow> bool" where
  "is_space c =
     ((9 \<le> c \<and> c \<le> 13) \<or> (28 \<le> c \<and> c \<le> 32) \<or> c = 133 \<or> c = 160 \<or> c = 5760 \<or>
      (8192 \<le> c \<and> c \<le> 8202) \<or> c = 8232 \<or> c = 8233 \<or> c = 8239 \<or> c = 8287 \<or> c = 12288)"

definition strip :: "pystr \<Rightarrow> pystr" where
  "strip s = rev (dropWhile is_space (rev (dropWhile is_space s)))"

text \<open>\<^verbatim>\<open>chunk.endswith((".", "!", "?"))\<close>: code points 46, 33 and 63.\<close>

definition endswith_terminator :: "pystr \<Rightarrow> bool" where
  "endswith_terminator s = (s \<noteq> [] \<and> (last s = 46 \<or> last s = 33 \<or> last s = 63))"

text \<open>Truth value of an \<^verbatim>\<open>Optional[str]\<close>: \<^verbatim>\<open>None\<close> and \<^verbatim>\<open>""\<close> are false.\<close>

definition truthy :: "pystr option \<Rightarrow> bool" where
  "truthy v = (case v of None \<Rightarrow> False | Some s \<Rightarrow> s \<noteq> [])"

datatype exn =
  ValueError pystr | ProviderError pystr | OSError pystr | UnicodeEncodeError | TypeError

text \<open>
  \<^verbatim>\<open>print(s)\<close> on a stdout whose encoding encodes the code points \<open>enc\<close> (with the default
  error handler \<^verbatim>\<open>strict\<close>) raises when some code point of \<open>s\<close> is not encodable. UTF-8
  encodes every code point but the surrogates U+D800 to U+DFFF; Latin-1 encodes the code
  points below 256, so no Hebrew letter.
\<close>

definition print_raises :: "(nat \<Rightarrow> bool) \<Rightarrow> pystr \<Rightarrow> bool" where
  "print_raises enc s = (\<not> list_all enc s)"

definition utf8 :: "nat \<Rightarrow> bool" where
  "utf8 c = (c < 55296 \<or> 57343 < c)"


subsection \<open>VoicePipelineMetrics\<close>

record VoicePipelineMetrics =
  stt_start :: real
  stt_end :: real
  rag_start :: real
  rag_end :: real
  llm_start :: real
  llm_first_token :: real
  llm_end :: real
  tts_start :: real
  tts_end :: real

definition VoicePipelineMetrics_init :: VoicePipelineMetrics where
  "VoicePipelineMetrics_init =
     \<lparr>stt_start = 0, stt_end = 0, rag_start = 0, rag_end = 0, llm_start = 0,
      llm_first_token = 0, llm_end = 0, tts_start = 0, tts_end = 0\<rparr>"

record latency_report =
  stt_latency_ms :: real
  rag_latency_ms :: real
  llm_first_token_ms :: real
  llm_total_ms :: real
  tts_latency_ms :: real
  total_latency_ms :: real

definition report :: "VoicePipelineMetrics \<Rightarrow> latency_report" where
  "report self =
     \<lparr>stt_latency_ms = (if stt_end self \<noteq> 0 then (stt_end self - stt_start self) * 1000 else 0),
      rag_latency_ms = (if rag_end self \<noteq> 0 then (rag_end self - rag_start self) * 1000 else 0),
      llm_first_token_ms =
        (if llm_first_token self \<noteq> 0 then (llm_first_token self - llm_start self) * 1000 else 0),
      llm_total_ms = (if llm_end self \<noteq> 0 then (llm_end self - llm_start self) * 1000 else 0),
      tts_latency_ms = (if tts_end self \<noteq> 0 then (tts_end self - tts_start self) * 1000 else 0),
      total_latency_ms =
        (if tts_end self \<noteq> 0 \<and> stt_start self \<noteq> 0
         then (tts_end self - stt_start self) * 1000 else 0)\<rparr>"

subsection \<open>The outside: environment and world\<close>

text \<open>What Whisper returns: the text, and the two attributes the code probes with \<^verbatim>\<open>hasattr\<close>.\<close>

record transcription =
  tr_text :: pystr
  tr_language :: "pystr option"
  tr_duration :: "real option"

text \<open>
  \<^item> The three credentials are module constants read with \<^verbatim>\<open>os.getenv\<close>.
  \<^item> \<open>clock e n\<close> is what the \<open>n\<close>-th call of \<^verbatim>\<open>time.time()\<close> returns.
  \<^item> \<open>whisper\<close> is opening the audio file and the transcription request (lines 115-128).
  \<^item> \<open>claude\<close> is the message stream for one prompt: the increments it delivers, and the
    exception that ends it if it does not end normally.
  \<^item> \<open>elevenlabs e n\<close> is the \<open>n\<close>-th call of \<^verbatim>\<open>generate\<close>: text and voice id to its answer, or
    the exception it raises.
  \<^item> \<open>fs_write\<close> is opening a file for writing and writing it.
\<close>

text \<open>
  What \<^verbatim>\<open>generate\<close> answers with: one \<^verbatim>\<open>bytes\<close> object, or an iterator that yields
  \<^verbatim>\<open>bytes\<close> chunks and may raise after them. Line 283 joins the answer with
  \<^verbatim>\<open>b"".join\<close>: iterating a \<^verbatim>\<open>bytes\<close> object yields integers, so the join of a non-empty
  one raises \<^verbatim>\<open>TypeError\<close>.
\<close>

datatype tts_answer = AudioBytes bytes | AudioChunks "bytes list" "exn option"

definition join_audio :: "tts_answer \<Rightarrow> exn + bytes" where
  "join_audio audio =
     (case audio of
        AudioBytes b \<Rightarrow> if b = [] then Inr [] else Inl TypeError
      | AudioChunks chunks None \<Rightarrow> Inr (concat chunks)
      | AudioChunks chunks (Some ex) \<Rightarrow> Inl ex)"

record env =
  OPENAI_API_KEY :: "pystr option"
  ANTHROPIC_API_KEY :: "pystr option"
  ELEVENLABS_API_KEY :: "pystr option"
  clock :: "nat \<Rightarrow> real"
  whisper :: "pystr \<Rightarrow> pystr option \<Rightarrow> exn + transcription"
  claude :: "pystr \<Rightarrow> pystr list \<times> exn option"
  elevenlabs :: "nat \<Rightarrow> pystr \<Rightarrow> pystr \<Rightarrow> exn + tts_answer"
  fs_write :: "pystr \<Rightarrow> bytes \<Rightarrow> exn option"

text \<open>
  \<open>synth_calls\<close> lists the texts \<^verbatim>\<open>synthesize_speech\<close> was called with, in call order:
  the chunks handed to synthesis. The other lists are the requests that reached a provider.
\<close>

record world =
  ticks :: nat
  stt_requests :: "(pystr \<times> pystr option) list"
  llm_requests :: "pystr list"
  tts_requests :: "(pystr \<times> pystr) list"
  synth_calls :: "pystr list"
  written :: "(pystr \<times> bytes) list"

definition world_init :: world where
  "world_init = \<lparr>ticks = 0, stt_requests = [], llm_requests = [], tts_requests = [],
                  synth_calls = [], written = []\<rparr>"

text \<open>\<^verbatim>\<open>if metrics: metrics.x = time.time()\<close>, for a field setter.\<close>

definition stamp ::
  "env \<Rightarrow> (real \<Rightarrow> VoicePipelineMetrics \<Rightarrow> VoicePipelineMetrics) \<Rightarrow>
   VoicePipelineMetrics option \<Rightarrow> world \<Rightarrow> VoicePipelineMetrics option \<times> world" where
  "stamp e setter metrics w =
     (case metrics of
        None \<Rightarrow> (None, w)
      | Some m \<Rightarrow> (Some (setter (clock e (ticks w)) m), w\<lparr>ticks := Suc (ticks w)\<rparr>))"

text \<open>
  The metrics object lives on the heap; a callee that received it has mutated it, a callee
  that received \<^verbatim>\<open>None\<close> has not.
\<close>

definition deref :: "VoicePipelineMetrics \<Rightarrow> VoicePipelineMetrics option \<Rightarrow> VoicePipelineMetrics" where
  "deref m metrics = (case metrics of None \<Rightarrow> m | Some m' \<Rightarrow> m')"

subsection \<open>transcribe_audio\<close>

record stt_result =
  res_text :: pystr
  res_language :: "pystr option"
  res_duration :: real

definition transcribe_audio ::
  "env \<Rightarrow> pystr \<Rightarrow> pystr option \<Rightarrow> VoicePipelineMetrics option \<Rightarrow> world \<Rightarrow>
   (exn + stt_result) \<times> VoicePipelineMetrics option \<times> world" where
  "transcribe_audio e audio_file language metrics w =
     (let (metrics1, w1) = stamp e (\<lambda>t m. m\<lparr>stt_start := t\<rparr>) metrics w in
      if \<not> truthy (OPENAI_API_KEY e)
      then (Inl (ValueError (str ''OPENAI_API_KEY environment variable not set'')), metrics1, w1)
      else
        let params_language = (if truthy language then language else None);
            w2 = w1\<lparr>stt_requests := stt_requests w1 @ [(audio_file, params_language)]\<rparr>
        in case whisper e audio_file params_language of
             Inl ex \<Rightarrow> (Inl ex, metrics1, w2)
           | Inr tr \<Rightarrow>
               let (metrics2, w3) = stamp e (\<lambda>t m. m\<lparr>stt_end := t\<rparr>) metrics1 w2
               in (Inr \<lparr>res_text = tr_text tr,
                        res_language = (case tr_language tr of Some l \<Rightarrow> Some l | None \<Rightarrow> language),
                        res_duration = (case tr_duration tr of Some d \<Rightarrow> d | None \<Rightarrow> 0)\<rparr>,
                   metrics2, w3))"

subsection \<open>retrieve_context\<close>

text \<open>The f-string of line 168; 39 is the apostrophe.\<close>

definition context_fstring :: "pystr \<Rightarrow> pystr option \<Rightarrow> pystr" where
  "context_fstring query video_id =
     str ''Context for query: '' @ [39] @ query @ [39] @ str '' (video: '' @
     (case video_id of None \<Rightarrow> str ''all'' | Some v \<Rightarrow> if v \<noteq> [] then v else str ''all'') @ str '')''"

text \<open>
  Line 164 prints the first 50 characters of the query, outside any \<^verbatim>\<open>try\<close>; line 173
  prints a number. \<open>retrieve_context_rest\<close> is lines 166-175.
\<close>

definition retrieve_context_rest ::
  "env \<Rightarrow> pystr \<Rightarrow> pystr option \<Rightarrow> VoicePipelineMetrics option \<Rightarrow> world \<Rightarrow>
   pystr \<times> VoicePipelineMetrics option \<times> world" where
  "retrieve_context_rest e query video_id metrics1 w1 =
     (let context = context_fstring query video_id;
          (metrics2, w2) = stamp e (\<lambda>t m. m\<lparr>rag_end := t\<rparr>) metrics1 w1
      in (context, metrics2, w2))"

definition retrieve_context ::
  "(nat \<Rightarrow> bool) \<Rightarrow> env \<Rightarrow> pystr \<Rightarrow> pystr option \<Rightarrow> VoicePipelineMetrics option \<Rightarrow> world \<Rightarrow>
   (exn + pystr) \<times> VoicePipelineMetrics option \<times> world" where
  "retrieve_context enc e query video_id metrics w =
     (let (metrics1, w1) = stamp e (\<lambda>t m. m\<lparr>rag_start := t\<rparr>) metrics w in
      if print_raises enc (take 50 query) then (Inl UnicodeEncodeError, metrics1, w1)
      else (let (context, metrics2, w2) = retrieve_context_rest e query video_id metrics1 w1
            in (Inr context, metrics2, w2)))"

text \<open>The function in a run in which the print of line 164 succeeds.\<close>

definition retrieve_context_printed ::
  "env \<Rightarrow> pystr \<Rightarrow> pystr option \<Rightarrow> VoicePipelineMetrics option \<Rightarrow> world \<Rightarrow>
   pystr \<times> VoicePipelineMetrics option \<times> world" where
  "retrieve_context_printed e query video_id metrics w =
     (let (metrics1, w1) = stamp e (\<lambda>t m. m\<lparr>rag_start := t\<rparr>) metrics w
      in retrieve_context_rest e query video_id metrics1 w1)"

subsection \<open>stream_claude_response\<close>

text \<open>
  The function is an asynchronous generator. Its body runs in three parts, each started by
  the consumer's \<^verbatim>\<open>async for\<close>: from the entry to the opened stream (lines 194-225), the
  code before each \<^verbatim>\<open>yield\<close> (lines 227-231), and the code after the stream has ended
  (lines 234-235).
\<close>

definition full_message :: "pystr \<Rightarrow> pystr \<Rightarrow> pystr" where
  "full_message context user_message =
     str ''Context from course transcripts:'' @ [10] @ str ''---'' @ [10] @ context @ [10] @
     str ''---'' @ [10, 10] @ str ''Student question: '' @ user_message"

definition stream_claude_response_open ::
  "env \<Rightarrow> pystr \<Rightarrow> pystr \<Rightarrow> VoicePipelineMetrics option \<Rightarrow> world \<Rightarrow>
   (exn + pystr list \<times> exn option) \<times> VoicePipelineMetrics option \<times> world" where
  "stream_claude_response_open e user_message context metrics w =
     (let (metrics1, w1) = stamp e (\<lambda>t m. m\<lparr>llm_start := t\<rparr>) metrics w in
      if \<not> truthy (ANTHROPIC_API_KEY e)
      then (Inl (ValueError (str ''ANTHROPIC_API_KEY environment variable not set'')), metrics1, w1)
      else
        let msg = full_message context user_message
        in (Inr (claude e msg), metrics1, w1\<lparr>llm_requests := llm_requests w1 @ [msg]\<rparr>))"

definition stream_claude_response_yield ::
  "env \<Rightarrow> bool \<Rightarrow> VoicePipelineMetrics option \<Rightarrow> world \<Rightarrow>
   bool \<times> VoicePipelineMetrics option \<times> world" where
  "stream_claude_response_yield e first_token metrics w =
     (if first_token \<and> metrics \<noteq> None
      then (let (metrics1, w1) = stamp e (\<lambda>t m. m\<lparr>llm_first_token := t\<rparr>) metrics w
            in (False, metrics1, w1))
      else (first_token, metrics, w))"

definition stream_claude_response_close ::
  "env \<Rightarrow> VoicePipelineMetrics option \<Rightarrow> world \<Rightarrow> VoicePipelineMetrics option \<times> world" where
  "stream_claude_response_close e metrics w = stamp e (\<lambda>t m. m\<lparr>llm_end := t\<rparr>) metrics w"

subsection \<open>synthesize_speech\<close>

definition DEFAULT_HEBREW_VOICE_ID :: pystr where
  "DEFAULT_HEBREW_VOICE_ID = str ''21m00Tcm4TlvDq8ikWAM''"

definition DEFAULT_ENGLISH_VOICE_ID :: pystr where
  "DEFAULT_ENGLISH_VOICE_ID = str ''21m00Tcm4TlvDq8ikWAM''"

text \<open>
  Line 261 prints the first 50 characters of the text, before the credential test and
  outside the \<^verbatim>\<open>try\<close>. The \<^verbatim>\<open>try\<close> block covers the call of \<^verbatim>\<open>generate\<close>, the join of its
  answer, the optional file write and the print of the file's path; its
  \<^verbatim>\<open>except Exception\<close> (\<open>synthesize_speech_except\<close>) returns \<^verbatim>\<open>b""\<close> after setting \<open>tts_end\<close>.
  The return for a missing credential comes before the block and sets no \<open>tts_end\<close>.
  \<open>synthesize_speech_rest\<close> is lines 263-301.
\<close>

definition synthesize_speech_except ::
  "env \<Rightarrow> VoicePipelineMetrics option \<Rightarrow> world \<Rightarrow> bytes \<times> VoicePipelineMetrics option \<times> world" where
  "synthesize_speech_except e metrics1 w =
     (let (metrics2, w3) = stamp e (\<lambda>t m. m\<lparr>tts_end := t\<rparr>) metrics1 w in ([], metrics2, w3))"

definition synthesize_speech_rest ::
  "(nat \<Rightarrow> bool) \<Rightarrow> env \<Rightarrow> pystr \<Rightarrow> pystr \<Rightarrow> pystr option \<Rightarrow> VoicePipelineMetrics option \<Rightarrow>
   world \<Rightarrow> bytes \<times> VoicePipelineMetrics option \<times> world" where
  "synthesize_speech_rest enc e text voice_id output_file metrics1 w1 =
     (if \<not> truthy (ELEVENLABS_API_KEY e) then ([], metrics1, w1)
      else
        let w2 = w1\<lparr>tts_requests := tts_requests w1 @ [(text, voice_id)]\<rparr> in
        case elevenlabs e (length (tts_requests w1)) text voice_id of
          Inl ex \<Rightarrow> synthesize_speech_except e metrics1 w2
        | Inr audio \<Rightarrow>
            (case join_audio audio of
               Inl ex \<Rightarrow> synthesize_speech_except e metrics1 w2
             | Inr audio_bytes \<Rightarrow>
                 (case output_file of
                    None \<Rightarrow>
                      (let (metrics2, w4) = stamp e (\<lambda>t m. m\<lparr>tts_end := t\<rparr>) metrics1 w2
                       in (audio_bytes, metrics2, w4))
                  | Some path \<Rightarrow>
                      if path = [] then
                        (let (metrics2, w4) = stamp e (\<lambda>t m. m\<lparr>tts_end := t\<rparr>) metrics1 w2
                         in (audio_bytes, metrics2, w4))
                      else
                        (case fs_write e path audio_bytes of
                           Some ex \<Rightarrow> synthesize_speech_except e metrics1 w2
                         | None \<Rightarrow>
                             (let w3 = w2\<lparr>written := written w2 @ [(path, audio_bytes)]\<rparr> in
                              if print_raises enc path then synthesize_speech_except e metrics1 w3
                              else (let (metrics2, w4) =
                                          stamp e (\<lambda>t m. m\<lparr>tts_end := t\<rparr>) metrics1 w3
                                    in (audio_bytes, metrics2, w4)))))))"

definition synthesize_speech ::
  "(nat \<Rightarrow> bool) \<Rightarrow> env \<Rightarrow> pystr \<Rightarrow> pystr \<Rightarrow> pystr option \<Rightarrow> VoicePipelineMetrics option \<Rightarrow>
   world \<Rightarrow> (exn + bytes) \<times> VoicePipelineMetrics option \<times> world" where
  "synthesize_speech enc e text voice_id output_file metrics w =
     (let w0 = w\<lparr>synth_calls := synth_calls w @ [text]\<rparr>;
          (metrics1, w1) = stamp e (\<lambda>t m. m\<lparr>tts_start := t\<rparr>) metrics w0 in
      if print_raises enc (take 50 text) then (Inl UnicodeEncodeError, metrics1, w1)
      else (let (audio_bytes, metrics2, w2) =
                  synthesize_speech_rest enc e text voice_id output_file metrics1 w1
            in (Inr audio_bytes, metrics2, w2)))"

text \<open>The function in a run in which its prints succeed.\<close>

definition synthesize_speech_printed ::
  "env \<Rightarrow> pystr \<Rightarrow> pystr \<Rightarrow> pystr option \<Rightarrow> VoicePipelineMetrics option \<Rightarrow> world \<Rightarrow>
   bytes \<times> VoicePipelineMetrics option \<times> world" where
  "synthesize_speech_printed e text voice_id output_file metrics w =
     (let w0 = w\<lparr>synth_calls := synth_calls w @ [text]\<rparr>;
          (metrics1, w1) = stamp e (\<lambda>t m. m\<lparr>tts_start := t\<rparr>) metrics w0
      in synthesize_speech_rest (\<lambda>c. True) e text voice_id output_file metrics1 w1)"

subsection \<open>voice_pipeline_streaming\<close>

text \<open>The local variables of the function while the response is consumed.\<close>

record frame =
  f_metrics :: VoicePipelineMetrics
  f_world :: world
  first_token :: bool
  response_chunks :: "pystr list"
  buffer :: "pystr list"
  audio_chunks :: "bytes list"

definition frame_init :: "VoicePipelineMetrics \<Rightarrow> world \<Rightarrow> frame" where
  "frame_init m w =
     \<lparr>f_metrics = m, f_world = w, first_token = True, response_chunks = [], buffer = [],
      audio_chunks = []\<rparr>"

definition voice_for :: "pystr \<Rightarrow> pystr" where
  "voice_for language =
     (if language = str ''he'' then DEFAULT_HEBREW_VOICE_ID else DEFAULT_ENGLISH_VOICE_ID)"

text \<open>The generator's code before a \<^verbatim>\<open>yield\<close>, on the frame (both pipelines pass \<open>metrics\<close>).\<close>

definition generator_yield :: "env \<Rightarrow> frame \<Rightarrow> frame" where
  "generator_yield e s =
     (let (ft, metrics1, w1) =
            stream_claude_response_yield e (first_token s) (Some (f_metrics s)) (f_world s)
      in s\<lparr>first_token := ft, f_metrics := deref (f_metrics s) metrics1, f_world := w1\<rparr>)"

definition generator_close :: "env \<Rightarrow> frame \<Rightarrow> frame" where
  "generator_close e s =
     (let (metrics1, w1) = stream_claude_response_close e (Some (f_metrics s)) (f_world s)
      in s\<lparr>f_metrics := deref (f_metrics s) metrics1, f_world := w1\<rparr>)"

text \<open>The body of the \<^verbatim>\<open>async for\<close> loop, lines 367-381.\<close>

definition streaming_body :: "env \<Rightarrow> pystr \<Rightarrow> int \<Rightarrow> pystr \<Rightarrow> frame \<Rightarrow> frame" where
  "streaming_body e language chunk_size chunk s =
     (let s1 = s\<lparr>response_chunks := response_chunks s @ [chunk], buffer := buffer s @ [chunk]\<rparr>;
          current_text = concat (buffer s1)
      in if chunk_size \<le> int (length current_text) \<or> endswith_terminator chunk
         then if strip current_text \<noteq> []
              then (let (audio, metrics1, w1) =
                          synthesize_speech_printed e (strip current_text) (voice_for language) None
                            (if audio_chunks s1 = [] then Some (f_metrics s1) else None)
                            (f_world s1)
                    in s1\<lparr>audio_chunks := audio_chunks s1 @ [audio], buffer := [],
                          f_metrics := deref (f_metrics s1) metrics1, f_world := w1\<rparr>)
              else s1
         else s1)"

fun streaming_loop :: "env \<Rightarrow> pystr \<Rightarrow> int \<Rightarrow> pystr list \<Rightarrow> frame \<Rightarrow> frame" where
  "streaming_loop e language chunk_size [] s = s"
| "streaming_loop e language chunk_size (chunk # rest) s =
     streaming_loop e language chunk_size rest
       (streaming_body e language chunk_size chunk (generator_yield e s))"

text \<open>Lines 384-391: what is left in the buffer when the stream has ended.\<close>

definition streaming_flush :: "env \<Rightarrow> pystr \<Rightarrow> frame \<Rightarrow> frame" where
  "streaming_flush e language s =
     (if buffer s \<noteq> []
      then (let remaining = strip (concat (buffer s))
            in if remaining \<noteq> []
               then (let (audio, metrics1, w1) =
                           synthesize_speech_printed e remaining (voice_for language) None None
                             (f_world s)
                     in s\<lparr>audio_chunks := audio_chunks s @ [audio], f_world := w1\<rparr>)
               else s)
      else s)"

text \<open>Lines 366-391 for a response stream that delivers \<open>incs\<close> and ends normally.\<close>

definition stream_and_synthesize :: "env \<Rightarrow> pystr \<Rightarrow> int \<Rightarrow> pystr list \<Rightarrow> frame \<Rightarrow> frame" where
  "stream_and_synthesize e language chunk_size incs s =
     streaming_flush e language (generator_close e (streaming_loop e language chunk_size incs s))"

record pipeline_result =
  transcript :: pystr
  response :: pystr
  audio_size :: nat
  result_metrics :: latency_report

text \<open>
  Beside the outcome the functions return the metrics object (a local of the function,
  lost when it raises) and the world as they are when the function returns or raises.
\<close>

text \<open>Lines 360-407: the function from the call of \<^verbatim>\<open>stream_claude_response\<close> on.\<close>

definition streaming_response ::
  "env \<Rightarrow> pystr \<Rightarrow> pystr option \<Rightarrow> int \<Rightarrow> pystr \<Rightarrow> pystr \<Rightarrow> VoicePipelineMetrics \<Rightarrow> world \<Rightarrow>
   (exn + pipeline_result) \<times> VoicePipelineMetrics \<times> world" where
  "streaming_response e language output_audio chunk_size user_message context m2 w2 =
     (case stream_claude_response_open e user_message context (Some m2) w2 of
        (Inl ex, metrics3, w3) \<Rightarrow> (Inl ex, deref m2 metrics3, w3)
      | (Inr (incs, failure), metrics3, w3) \<Rightarrow>
          (let s0 = frame_init (deref m2 metrics3) w3 in
           case failure of
             Some ex \<Rightarrow>
               (let s = streaming_loop e language chunk_size incs s0
                in (Inl ex, f_metrics s, f_world s))
           | None \<Rightarrow>
               (let s = stream_and_synthesize e language chunk_size incs s0;
                    full_audio = concat (audio_chunks s)
                in case (if truthy output_audio \<and> full_audio \<noteq> []
                         then fs_write e (the output_audio) full_audio else None) of
                     Some ex \<Rightarrow> (Inl ex, f_metrics s, f_world s)
                   | None \<Rightarrow>
                       (Inr \<lparr>transcript = user_message,
                             response = concat (response_chunks s),
                             audio_size = length full_audio,
                             result_metrics = report (f_metrics s)\<rparr>,
                        f_metrics s,
                        (if truthy output_audio \<and> full_audio \<noteq> []
                         then (f_world s)\<lparr>written := written (f_world s) @
                                [(the output_audio, full_audio)]\<rparr>
                         else f_world s)))))"

definition voice_pipeline_streaming ::
  "env \<Rightarrow> pystr \<Rightarrow> pystr \<Rightarrow> pystr option \<Rightarrow> pystr option \<Rightarrow> int \<Rightarrow> world \<Rightarrow>
   (exn + pipeline_result) \<times> VoicePipelineMetrics \<times> world" where
  "voice_pipeline_streaming e audio_file language video_id output_audio chunk_size w =
     (let m0 = VoicePipelineMetrics_init in
      case transcribe_audio e audio_file (Some language) (Some m0) w of
        (Inl ex, metrics1, w1) \<Rightarrow> (Inl ex, deref m0 metrics1, w1)
      | (Inr transcription, metrics1, w1) \<Rightarrow>
          (let m1 = deref m0 metrics1;
               user_message = res_text transcription;
               (context, metrics2, w2) =
                 retrieve_context_printed e user_message video_id (Some m1) w1
           in streaming_response e language output_audio chunk_size user_message context
                (deref m1 metrics2) w2))"


subsection \<open>voice_pipeline_simple\<close>

fun simple_loop :: "env \<Rightarrow> pystr list \<Rightarrow> frame \<Rightarrow> frame" where
  "simple_loop e [] s = s"
| "simple_loop e (chunk # rest) s =
     simple_loop e rest
       ((generator_yield e s)\<lparr>response_chunks := response_chunks (generator_yield e s) @ [chunk]\<rparr>)"

definition voice_pipeline_simple ::
  "env \<Rightarrow> pystr \<Rightarrow> pystr \<Rightarrow> pystr option \<Rightarrow> pystr option \<Rightarrow> world \<Rightarrow>
   (exn + pipeline_result) \<times> VoicePipelineMetrics \<times> world" where
  "voice_pipeline_simple e audio_file language video_id output_audio w =
     (let m0 = VoicePipelineMetrics_init in
      case transcribe_audio e audio_file (Some language) (Some m0) w of
        (Inl ex, metrics1, w1) \<Rightarrow> (Inl ex, deref m0 metrics1, w1)
      | (Inr transcription, metrics1, w1) \<Rightarrow>
          (let m1 = deref m0 metrics1;
               user_message = res_text transcription;
               (context, metrics2, w2) =
                 retrieve_context_printed e user_message video_id (Some m1) w1;
               m2 = deref m1 metrics2
           in case stream_claude_response_open e user_message context (Some m2) w2 of
                (Inl ex, metrics3, w3) \<Rightarrow> (Inl ex, deref m2 metrics3, w3)
              | (Inr (incs, failure), metrics3, w3) \<Rightarrow>
                  (let s = simple_loop e incs (frame_init (deref m2 metrics3) w3) in
                   case failure of
                     Some ex \<Rightarrow> (Inl ex, f_metrics s, f_world s)
                   | None \<Rightarrow>
                       (let s1 = generator_close e s;
                            full_response = concat (response_chunks s1);
                            (audio, metrics4, w4) =
                              synthesize_speech_printed e full_response (voice_for language)
                                output_audio
                                (Some (f_metrics s1)) (f_world s1)
                        in (Inr \<lparr>transcript = user_message,
                                 response = full_response,
                                 audio_size = length audio,
                                 result_metrics = report (deref (f_metrics s1) metrics4)\<rparr>,
                            deref (f_metrics s1) metrics4, w4)))))"

subsection \<open>Chunks, their audio, and a test environment\<close>

text \<open>
  The chunks a run handed to synthesis: the calls of \<^verbatim>\<open>synthesize_speech\<close> made since the
  world \<open>w\<close>, in order. A chunk's sequence number is its position in this list, which is the
  position of its audio in \<open>audio_chunks\<close>.
\<close>

definition emitted_chunks :: "world \<Rightarrow> frame \<Rightarrow> pystr list" where
  "emitted_chunks w s = drop (length (synth_calls w)) (synth_calls (f_world s))"

text \<open>
  What the loop does to the buffer, without the synthesis: the chunks that leave the loop
  and the buffer that stays, for a threshold, a buffer and the increments still to come.
\<close>

fun chunker :: "int \<Rightarrow> pystr list \<Rightarrow> pystr list \<Rightarrow> pystr list \<times> pystr list" where
  "chunker chunk_size buf [] = ([], buf)"
| "chunker chunk_size buf (chunk # rest) =
     (let current_text = concat (buf @ [chunk])
      in if (chunk_size \<le> int (length current_text) \<or> endswith_terminator chunk) \<and>
            strip current_text \<noteq> []
         then (strip current_text # fst (chunker chunk_size [] rest),
               snd (chunker chunk_size [] rest))
         else chunker chunk_size (buf @ [chunk]) rest)"

definition trailing_chunk :: "pystr list \<Rightarrow> pystr list" where
  "trailing_chunk buf =
     (if buf \<noteq> [] \<and> strip (concat buf) \<noteq> [] then [strip (concat buf)] else [])"

text \<open>
  Lines 268-283 for synthesis request number \<open>n\<close>: \<^verbatim>\<open>generate\<close> and the join of its answer.
  The request succeeds when neither raises.
\<close>

definition generate_and_join :: "env \<Rightarrow> nat \<Rightarrow> pystr \<Rightarrow> pystr \<Rightarrow> exn + bytes" where
  "generate_and_join e n t voice_id =
     (case elevenlabs e n t voice_id of Inl ex \<Rightarrow> Inl ex | Inr audio \<Rightarrow> join_audio audio)"

text \<open>
  The audio of the chunks \<open>ts\<close> when the first of them is synthesis request number \<open>n\<close>
  and the credential is set: per chunk, with \<^verbatim>\<open>b""\<close> where the request fails
  (\<open>synthesized_audio\<close>), and the bytes of the requests that succeed only
  (\<open>successful_audio\<close>).
\<close>

fun synthesized_audio :: "env \<Rightarrow> pystr \<Rightarrow> nat \<Rightarrow> pystr list \<Rightarrow> bytes list" where
  "synthesized_audio e voice_id n [] = []"
| "synthesized_audio e voice_id n (t # ts) =
     (case generate_and_join e n t voice_id of Inl ex \<Rightarrow> [] | Inr audio_bytes \<Rightarrow> audio_bytes) #
     synthesized_audio e voice_id (Suc n) ts"

fun successful_audio :: "env \<Rightarrow> pystr \<Rightarrow> nat \<Rightarrow> pystr list \<Rightarrow> bytes list" where
  "successful_audio e voice_id n [] = []"
| "successful_audio e voice_id n (t # ts) =
     (case generate_and_join e n t voice_id of
        Inl ex \<Rightarrow> successful_audio e voice_id (Suc n) ts
      | Inr audio_bytes \<Rightarrow> audio_bytes # successful_audio e voice_id (Suc n) ts)"

text \<open>
  An environment for concrete runs: all credentials set, and providers that answer; the
  second call of \<^verbatim>\<open>generate\<close> raises, the others answer with two chunks of audio.
\<close>

definition env_ok :: env where
  "env_ok =
     \<lparr>OPENAI_API_KEY = Some (str ''sk-openai''),
      ANTHROPIC_API_KEY = Some (str ''sk-ant''),
      ELEVENLABS_API_KEY = Some (str ''el-key''),
      clock = (\<lambda>n. 1700000000 + real n),
      whisper = (\<lambda>audio_file language.
                  Inr \<lparr>tr_text = str ''What is RAG?'', tr_language = language,
                       tr_duration = Some 2\<rparr>),
      claude = (\<lambda>msg. ([str ''Hello'', str '' world.'', str '' Bye''], None)),
      elevenlabs = (\<lambda>n t voice_id. if n = 1 then Inl (ProviderError (str ''503''))
                                   else Inr (AudioChunks [[1, 2], [3]] None)),
      fs_write = (\<lambda>path audio_bytes. None)\<rparr>"

section \<open>Facts about the model\<close>

subsection \<open>Stamps, synthesis calls and the loop\<close>

lemma stamp_None: "stamp e f None w = (None, w)"
  by (simp add: stamp_def)

lemma stamp_Some: "stamp e f (Some m) w = (Some (f (clock e (ticks w)) m), w\<lparr>ticks := Suc (ticks w)\<rparr>)"
  by (simp add: stamp_def)

lemma stamp_logs:
  "synth_calls (snd (stamp e f mo w)) = synth_calls w"
  "tts_requests (snd (stamp e f mo w)) = tts_requests w"
  "stt_requests (snd (stamp e f mo w)) = stt_requests w"
  "llm_requests (snd (stamp e f mo w)) = llm_requests w"
  "written (snd (stamp e f mo w)) = written w"
  by (simp_all add: stamp_def split: option.splits)

lemma synthesize_speech_synth_calls:
  "synth_calls (snd (snd (synthesize_speech_printed e t v out mo w))) = synth_calls w @ [t]"
  by (simp add: synthesize_speech_printed_def synthesize_speech_rest_def synthesize_speech_except_def generate_and_join_def stamp_def Let_def split: option.splits sum.splits prod.splits tts_answer.splits)

lemma synthesize_speech_tts_requests:
  "tts_requests (snd (snd (synthesize_speech_printed e t v out mo w))) =
     (if truthy (ELEVENLABS_API_KEY e) then tts_requests w @ [(t, v)] else tts_requests w)"
  by (simp add: synthesize_speech_printed_def synthesize_speech_rest_def synthesize_speech_except_def generate_and_join_def stamp_def Let_def split: option.splits sum.splits prod.splits tts_answer.splits)

lemma synthesize_speech_audio:
  "fst (synthesize_speech_printed e t v None mo w) =
     (if truthy (ELEVENLABS_API_KEY e)
      then (case generate_and_join e (length (tts_requests w)) t v of Inl ex \<Rightarrow> [] | Inr b \<Rightarrow> b)
      else [])"
  by (simp add: synthesize_speech_printed_def synthesize_speech_rest_def synthesize_speech_except_def generate_and_join_def stamp_def Let_def truthy_def split: option.splits sum.splits prod.splits tts_answer.splits)

lemma synthesize_speech_untracked:
  "fst (snd (synthesize_speech_printed e t v out None w)) = None"
  by (simp add: synthesize_speech_printed_def synthesize_speech_rest_def synthesize_speech_except_def generate_and_join_def stamp_def Let_def split: option.splits sum.splits prod.splits tts_answer.splits)

lemma synthesize_speech_other_logs:
  "stt_requests (snd (snd (synthesize_speech_printed e t v out mo w))) = stt_requests w"
  "llm_requests (snd (snd (synthesize_speech_printed e t v out mo w))) = llm_requests w"
  by (simp_all add: synthesize_speech_printed_def synthesize_speech_rest_def synthesize_speech_except_def generate_and_join_def stamp_def Let_def split: option.splits sum.splits prod.splits tts_answer.splits)

lemma generator_yield_frame:
  "buffer (generator_yield e s) = buffer s"
  "audio_chunks (generator_yield e s) = audio_chunks s"
  "response_chunks (generator_yield e s) = response_chunks s"
  "synth_calls (f_world (generator_yield e s)) = synth_calls (f_world s)"
  "tts_requests (f_world (generator_yield e s)) = tts_requests (f_world s)"
  by (simp_all add: generator_yield_def stream_claude_response_yield_def stamp_def Let_def)

lemma generator_close_frame:
  "buffer (generator_close e s) = buffer s"
  "audio_chunks (generator_close e s) = audio_chunks s"
  "response_chunks (generator_close e s) = response_chunks s"
  "synth_calls (f_world (generator_close e s)) = synth_calls (f_world s)"
  "tts_requests (f_world (generator_close e s)) = tts_requests (f_world s)"
  by (simp_all add: generator_close_def stream_claude_response_close_def stamp_def Let_def)

lemma streaming_body_buffer:
  "buffer (streaming_body e language T c s) =
     (if (T \<le> int (length (concat (buffer s @ [c]))) \<or> endswith_terminator c) \<and>
         strip (concat (buffer s @ [c])) \<noteq> []
      then [] else buffer s @ [c])"
  by (simp add: streaming_body_def Let_def split: prod.splits)

lemma streaming_body_synth_calls:
  "synth_calls (f_world (streaming_body e language T c s)) =
     synth_calls (f_world s) @
     (if (T \<le> int (length (concat (buffer s @ [c]))) \<or> endswith_terminator c) \<and>
         strip (concat (buffer s @ [c])) \<noteq> []
      then [strip (concat (buffer s @ [c]))] else [])"
proof -
  have "\<And>t v out mo w a m' w'. synthesize_speech_printed e t v out mo w = (a, m', w') \<Longrightarrow> synth_calls w' = synth_calls w @ [t]"
    using synthesize_speech_synth_calls by (metis snd_conv)
  then show ?thesis
    by (simp add: streaming_body_def Let_def split: prod.splits)
qed

lemma streaming_loop_chunker:
  "synth_calls (f_world (streaming_loop e language T incs s)) =
     synth_calls (f_world s) @ fst (chunker T (buffer s) incs) \<and>
   buffer (streaming_loop e language T incs s) = snd (chunker T (buffer s) incs)"
proof (induction incs arbitrary: s)
  case Nil
  show ?case by simp
next
  case (Cons c cs)
  show ?case
    by (simp add: Cons.IH streaming_body_buffer streaming_body_synth_calls generator_yield_frame Let_def)
qed


subsection \<open>Stripping and chunking\<close>

lemma filter_dropWhile_space:
  "filter (\<lambda>c. \<not> is_space c) (dropWhile is_space s) = filter (\<lambda>c. \<not> is_space c) s"
  by (induction s) auto

lemma filter_strip: "filter (\<lambda>c. \<not> is_space c) (strip s) = filter (\<lambda>c. \<not> is_space c) s"
proof -
  have "filter (\<lambda>c. \<not> is_space c) (strip s) =
        rev (filter (\<lambda>c. \<not> is_space c) (dropWhile is_space (rev (dropWhile is_space s))))"
    by (simp add: strip_def rev_filter)
  also have "\<dots> = rev (filter (\<lambda>c. \<not> is_space c) (rev (dropWhile is_space s)))"
    by (simp only: filter_dropWhile_space)
  also have "\<dots> = filter (\<lambda>c. \<not> is_space c) (dropWhile is_space s)"
    by (simp add: rev_filter)
  finally show ?thesis by (simp only: filter_dropWhile_space)
qed

lemma strip_eq_Nil: "strip s = [] \<longleftrightarrow> (\<forall>c\<in>set s. is_space c)"
proof
  assume "strip s = []"
  then have "filter (\<lambda>c. \<not> is_space c) s = []"
    using filter_strip [of s] by simp
  then show "\<forall>c\<in>set s. is_space c"
    by (simp add: filter_empty_conv)
next
  assume "\<forall>c\<in>set s. is_space c"
  then show "strip s = []" by (auto simp: strip_def dest: set_dropWhileD)
qed

lemma length_strip_le: "length (strip s) \<le> length s"
proof -
  have "length (strip s) \<le> length (dropWhile is_space s)"
    using length_dropWhile_le [of is_space "rev (dropWhile is_space s)"] by (simp add: strip_def)
  also have "\<dots> \<le> length s" by (rule length_dropWhile_le)
  finally show ?thesis .
qed

lemma strip_append_space: "\<forall>c\<in>set a. is_space c \<Longrightarrow> strip (a @ b) = strip b"
  by (simp add: strip_def)

lemma chunker_nonempty: "t \<in> set (fst (chunker T buf incs)) \<Longrightarrow> t \<noteq> []"
  by (induction incs arbitrary: buf) (auto simp: Let_def split: if_splits)

lemma chunker_filter:
  "filter (\<lambda>c. \<not> is_space c) (concat (fst (chunker T buf incs))) @
   filter (\<lambda>c. \<not> is_space c) (concat (snd (chunker T buf incs))) =
   filter (\<lambda>c. \<not> is_space c) (concat buf) @ filter (\<lambda>c. \<not> is_space c) (concat incs)"
proof (induction incs arbitrary: buf)
  case Nil
  show ?case by simp
next
  case (Cons c cs)
  show ?case
  proof (cases "(T \<le> int (length (concat (buf @ [c]))) \<or> endswith_terminator c) \<and>
                strip (concat (buf @ [c])) \<noteq> []")
    case True
    then have "chunker T buf (c # cs) =
        (strip (concat (buf @ [c])) # fst (chunker T [] cs), snd (chunker T [] cs))"
      by (auto simp: Let_def)
    then show ?thesis
      using Cons.IH [of "[]"] filter_strip [of "concat (buf @ [c])"] by simp
  next
    case False
    then have "chunker T buf (c # cs) = chunker T (buf @ [c]) cs"
      by (auto simp: Let_def)
    then show ?thesis
      using Cons.IH [of "buf @ [c]"] by simp
  qed
qed

lemma trailing_chunk_filter:
  "filter (\<lambda>c. \<not> is_space c) (concat (trailing_chunk buf)) =
   filter (\<lambda>c. \<not> is_space c) (concat buf)"
proof (cases "strip (concat buf) = []")
  case True
  then have "filter (\<lambda>c. \<not> is_space c) (concat buf) = []"
    using filter_strip [of "concat buf"] by simp
  with True show ?thesis by (simp add: trailing_chunk_def)
next
  case False
  then have "buf \<noteq> []" by (auto simp: strip_def)
  with False show ?thesis by (simp add: trailing_chunk_def filter_strip)
qed

lemma streaming_flush_synth_calls:
  "synth_calls (f_world (streaming_flush e language s)) =
     synth_calls (f_world s) @ trailing_chunk (buffer s)"
proof -
  have "\<And>t v out mo w a m' w'. synthesize_speech_printed e t v out mo w = (a, m', w') \<Longrightarrow> synth_calls w' = synth_calls w @ [t]"
    using synthesize_speech_synth_calls by (metis snd_conv)
  then show ?thesis
    by (simp add: streaming_flush_def trailing_chunk_def Let_def split: prod.splits)
qed

lemma emitted_chunks_stream_and_synthesize:
  "emitted_chunks w (stream_and_synthesize e language T incs (frame_init m w)) =
     fst (chunker T [] incs) @ trailing_chunk (snd (chunker T [] incs))"
  by (simp add: emitted_chunks_def stream_and_synthesize_def streaming_flush_synth_calls
      generator_close_frame streaming_loop_chunker frame_init_def)

lemma emitted_chunks_streaming_loop:
  "emitted_chunks w (streaming_loop e language T incs (frame_init m w)) = fst (chunker T [] incs)"
  by (simp add: emitted_chunks_def streaming_loop_chunker frame_init_def)

section \<open>The chunker\<close>

lemma buffer_streaming_loop:
  "buffer (streaming_loop e language T incs (frame_init m w)) = snd (chunker T [] incs)"
  by (simp add: streaming_loop_chunker frame_init_def)

lemmas chunk_eval =
  trailing_chunk_def Let_def strip_def is_space_def endswith_terminator_def str_def

text \<open>
  C3, as amended. For the increments "Hello", " world.", " Bye" and threshold 100, nothing
  is emitted after "Hello"; the terminator fires as soon as " world." is appended, the chunk
  "Hello world." is emitted first (sequence number 0) and the buffer is empty again; at
  stream end the rest is emitted second (sequence number 1), stripped: its text is "Bye".
\<close>

theorem hello_world_bye_scenario:
  "emitted_chunks w (streaming_loop e language 100 [str ''Hello''] (frame_init m w)) = [] \<and>
   emitted_chunks w
     (streaming_loop e language 100 [str ''Hello'', str '' world.''] (frame_init m w)) =
     [str ''Hello world.''] \<and>
   buffer (streaming_loop e language 100 [str ''Hello'', str '' world.''] (frame_init m w)) = [] \<and>
   emitted_chunks w
     (stream_and_synthesize e language 100 [str ''Hello'', str '' world.'', str '' Bye'']
        (frame_init m w)) ! 0 = str ''Hello world.'' \<and>
   emitted_chunks w
     (stream_and_synthesize e language 100 [str ''Hello'', str '' world.'', str '' Bye'']
        (frame_init m w)) ! 1 = str ''Bye'' \<and>
   length (emitted_chunks w
     (stream_and_synthesize e language 100 [str ''Hello'', str '' world.'', str '' Bye'']
        (frame_init m w))) = 2"
  unfolding emitted_chunks_stream_and_synthesize emitted_chunks_streaming_loop
    buffer_streaming_loop
  by (simp add: chunk_eval)

theorem hello_world_bye_counterexample:
  "emitted_chunks world_init
     (stream_and_synthesize env_ok (str ''he'') 100 [str ''Hello'', str '' world.'', str '' Bye'']
        (frame_init VoicePipelineMetrics_init world_init)) ! 1 \<noteq> str '' Bye''"
  by (simp add: emitted_chunks_stream_and_synthesize chunk_eval)

subsection \<open>The length of a chunk\<close>

lemma streaming_loop_append:
  "streaming_loop e language T (xs @ ys) s =
   streaming_loop e language T ys (streaming_loop e language T xs s)"
  by (induction xs arbitrary: s) simp_all

lemma streaming_loop_snoc:
  "streaming_loop e language T (pre @ [c]) s =
   streaming_body e language T c (generator_yield e (streaming_loop e language T pre s))"
  by (simp add: streaming_loop_append)

lemma chunker_buffer_invariant:
  "(\<forall>c \<in> set (concat buf). is_space c) \<or> int (length (concat buf)) < T \<Longrightarrow>
   (\<forall>c \<in> set (concat (snd (chunker T buf incs))). is_space c) \<or>
   int (length (concat (snd (chunker T buf incs)))) < T"
proof (induction incs arbitrary: buf)
  case Nil
  then show ?case by simp
next
  case (Cons c cs)
  show ?case
  proof (cases "(T \<le> int (length (concat (buf @ [c]))) \<or> endswith_terminator c) \<and>
                strip (concat (buf @ [c])) \<noteq> []")
    case True
    then have "chunker T buf (c # cs) =
        (strip (concat (buf @ [c])) # fst (chunker T [] cs), snd (chunker T [] cs))"
      by (auto simp: Let_def)
    then show ?thesis
      using Cons.IH [of "[]"] by simp
  next
    case False
    then have step: "chunker T buf (c # cs) = chunker T (buf @ [c]) cs"
      by (auto simp: Let_def)
    from False have "(\<forall>x \<in> set (concat (buf @ [c])). is_space x) \<or>
        int (length (concat (buf @ [c]))) < T"
      using strip_eq_Nil [of "concat (buf @ [c])"] by auto
    then show ?thesis
      using Cons.IH [of "buf @ [c]"] step by simp
  qed
qed

lemma buffer_invariant:
  "(\<forall>c \<in> set (concat (buffer (streaming_loop e language T incs (frame_init m w)))). is_space c) \<or>
   int (length (concat (buffer (streaming_loop e language T incs (frame_init m w))))) < T"
  using chunker_buffer_invariant [of "[]" T incs] by (simp add: buffer_streaming_loop)

lemma strip_append_bound:
  assumes "(\<forall>x \<in> set b. is_space x) \<or> int (length b) < T"
  shows "int (length (strip (b @ c))) < max T 1 + int (length c)"
proof -
  from assms consider "\<forall>x \<in> set b. is_space x" | "int (length b) < T" by blast
  then show ?thesis
  proof cases
    case 1
    then have "strip (b @ c) = strip c" by (rule strip_append_space)
    then show ?thesis using length_strip_le [of c] by simp
  next
    case 2
    then show ?thesis using length_strip_le [of "b @ c"] by simp
  qed
qed

lemma emitted_chunks_streaming_body:
  "emitted_chunks (f_world s) (streaming_body e language T c (generator_yield e s)) =
     (if (T \<le> int (length (concat (buffer s @ [c]))) \<or> endswith_terminator c) \<and>
         strip (concat (buffer s @ [c])) \<noteq> []
      then [strip (concat (buffer s @ [c]))] else [])"
  by (simp add: emitted_chunks_def streaming_body_synth_calls generator_yield_frame)

lemma emitted_chunks_streaming_flush:
  "emitted_chunks (f_world s) (streaming_flush e language s) = trailing_chunk (buffer s)"
  by (simp add: emitted_chunks_def streaming_flush_synth_calls)

text \<open>
  C2, as amended. For every increment stream and every threshold \<open>T\<close>: a chunk emitted when
  the increment \<open>c\<close> is appended (after any increments \<open>pre\<close>) has fewer than
  \<open>max T 1 + len c\<close> characters, so it exceeds \<open>T\<close> by less than the length of the increment
  that triggered it, with or without a terminator. At stream end the remaining buffer is
  emitted, stripped, as a final chunk exactly when it is not empty after stripping, even if
  it ends with no terminator; that final chunk has fewer than \<open>T\<close> characters.
\<close>

theorem chunk_overrun_bounded_by_last_increment:
  "(let s = streaming_loop e language T pre (frame_init m w);
        s' = streaming_loop e language T (pre @ [c]) (frame_init m w)
    in \<forall>t \<in> set (emitted_chunks (f_world s) s'). int (length t) < max T 1 + int (length c)) \<and>
   (let s = generator_close e (streaming_loop e language T incs (frame_init m w));
        remaining = strip (concat (buffer s))
    in emitted_chunks (f_world s) (streaming_flush e language s) =
         (if remaining \<noteq> [] then [remaining] else []) \<and>
       (remaining \<noteq> [] \<longrightarrow> int (length remaining) < T))"
proof -
  let ?s = "streaming_loop e language T pre (frame_init m w)"
  have "int (length (strip (concat (buffer ?s) @ c))) < max T 1 + int (length c)"
    using buffer_invariant [of e language T pre m w] by (rule strip_append_bound)
  then have step: "\<forall>t \<in> set (emitted_chunks (f_world ?s)
        (streaming_loop e language T (pre @ [c]) (frame_init m w))).
      int (length t) < max T 1 + int (length c)"
    by (simp add: streaming_loop_snoc emitted_chunks_streaming_body)
  let ?b = "buffer (streaming_loop e language T incs (frame_init m w))"
  have flush: "trailing_chunk ?b = (if strip (concat ?b) \<noteq> [] then [strip (concat ?b)] else [])"
    by (auto simp: trailing_chunk_def strip_def)
  have "strip (concat ?b) \<noteq> [] \<longrightarrow> int (length (strip (concat ?b))) < T"
    using buffer_invariant [of e language T incs m w] strip_eq_Nil [of "concat ?b"]
      length_strip_le [of "concat ?b"] by auto
  with step flush show ?thesis
    by (simp add: Let_def emitted_chunks_streaming_flush generator_close_frame)
qed

theorem chunk_overrun_bounded_by_last_increment_witness:
  "emitted_chunks (f_world (streaming_loop env_ok (str ''he'') 8 [str ''Hello'']
        (frame_init VoicePipelineMetrics_init world_init)))
     (streaming_loop env_ok (str ''he'') 8 ([str ''Hello''] @ [str '' world.''])
        (frame_init VoicePipelineMetrics_init world_init)) = [str ''Hello world.''] \<and>
   int (length (str ''Hello world.'')) < max 8 1 + int (length (str '' world.'')) \<and>
   emitted_chunks
     (f_world (generator_close env_ok (streaming_loop env_ok (str ''he'') 8
        [str ''Hello'', str '' world.'', str '' Bye'']
        (frame_init VoicePipelineMetrics_init world_init))))
     (streaming_flush env_ok (str ''he'') (generator_close env_ok
        (streaming_loop env_ok (str ''he'') 8 [str ''Hello'', str '' world.'', str '' Bye'']
        (frame_init VoicePipelineMetrics_init world_init)))) = [str ''Bye''] \<and>
   int (length (str ''Bye'')) < 8"
proof -
  have b1: "buffer (streaming_loop env_ok (str ''he'') 8 [str ''Hello'']
        (frame_init VoicePipelineMetrics_init world_init)) = [str ''Hello'']"
    unfolding buffer_streaming_loop by (simp add: chunk_eval)
  have b2: "buffer (streaming_loop env_ok (str ''he'') 8
        [str ''Hello'', str '' world.'', str '' Bye'']
        (frame_init VoicePipelineMetrics_init world_init)) = [str '' Bye'']"
    unfolding buffer_streaming_loop by (simp add: chunk_eval)
  have e1: "emitted_chunks (f_world (streaming_loop env_ok (str ''he'') 8 [str ''Hello'']
        (frame_init VoicePipelineMetrics_init world_init)))
     (streaming_loop env_ok (str ''he'') 8 ([str ''Hello''] @ [str '' world.''])
        (frame_init VoicePipelineMetrics_init world_init)) = [str ''Hello world.'']"
    unfolding streaming_loop_snoc emitted_chunks_streaming_body b1
    by (simp add: chunk_eval)
  have e2: "strip (concat [str '' Bye'']) = str ''Bye''"
    by (simp add: chunk_eval)
  show ?thesis
    using chunk_overrun_bounded_by_last_increment
      [of env_ok "str ''he''" 8 "[str ''Hello'']" VoicePipelineMetrics_init world_init
          "str '' world.''" "[str ''Hello'', str '' world.'', str '' Bye'']"]
    unfolding Let_def e1 generator_close_frame b2 e2
    by (simp add: str_def)
qed

theorem chunk_overrun_counterexample:
  "emitted_chunks world_init
     (stream_and_synthesize env_ok (str ''he'') 5 [str ''Hello world'']
        (frame_init VoicePipelineMetrics_init world_init)) = [str ''Hello world''] \<and>
   (5::int) < int (length (str ''Hello world'')) \<and>
   \<not> endswith_terminator (str ''Hello world'') \<and>
   buffer (generator_close env_ok (streaming_loop env_ok (str ''he'') 100 [str '' '']
        (frame_init VoicePipelineMetrics_init world_init))) = [str '' ''] \<and>
   emitted_chunks world_init
     (stream_and_synthesize env_ok (str ''he'') 100 [str '' '']
        (frame_init VoicePipelineMetrics_init world_init)) = []"
  unfolding emitted_chunks_stream_and_synthesize generator_close_frame buffer_streaming_loop
  by (simp add: chunk_eval)

section \<open>The latency report\<close>

text \<open>
  C9. \<^verbatim>\<open>__init__\<close> sets every timestamp to 0, and a stage that never records its end leaves
  it 0. For every metrics state the report then gives 0 for that stage's duration, for each
  of the stt, rag, llm and tts stages, whatever the other timestamps are.
\<close>

theorem report_zero_when_end_unset:
  "(stt_end m = 0 \<longrightarrow> stt_latency_ms (report m) = 0) \<and>
   (rag_end m = 0 \<longrightarrow> rag_latency_ms (report m) = 0) \<and>
   (llm_end m = 0 \<longrightarrow> llm_total_ms (report m) = 0) \<and>
   (tts_end m = 0 \<longrightarrow> tts_latency_ms (report m) = 0)"
  by (simp add: report_def)

theorem report_zero_when_end_unset_witness:
  "stt_end (VoicePipelineMetrics_init\<lparr>stt_start := 1700000000, rag_start := 1700000002,
      llm_start := 1700000004, tts_start := 1700000006\<rparr>) = 0 \<and>
   rag_end (VoicePipelineMetrics_init\<lparr>stt_start := 1700000000, rag_start := 1700000002,
      llm_start := 1700000004, tts_start := 1700000006\<rparr>) = 0 \<and>
   llm_end (VoicePipelineMetrics_init\<lparr>stt_start := 1700000000, rag_start := 1700000002,
      llm_start := 1700000004, tts_start := 1700000006\<rparr>) = 0 \<and>
   tts_end (VoicePipelineMetrics_init\<lparr>stt_start := 1700000000, rag_start := 1700000002,
      llm_start := 1700000004, tts_start := 1700000006\<rparr>) = 0 \<and>
   stt_latency_ms (report (VoicePipelineMetrics_init\<lparr>stt_start := 1700000000,
      rag_start := 1700000002, llm_start := 1700000004, tts_start := 1700000006\<rparr>)) = 0 \<and>
   rag_latency_ms (report (VoicePipelineMetrics_init\<lparr>stt_start := 1700000000,
      rag_start := 1700000002, llm_start := 1700000004, tts_start := 1700000006\<rparr>)) = 0 \<and>
   llm_total_ms (report (VoicePipelineMetrics_init\<lparr>stt_start := 1700000000,
      rag_start := 1700000002, llm_start := 1700000004, tts_start := 1700000006\<rparr>)) = 0 \<and>
   tts_latency_ms (report (VoicePipelineMetrics_init\<lparr>stt_start := 1700000000,
      rag_start := 1700000002, llm_start := 1700000004, tts_start := 1700000006\<rparr>)) = 0"
proof -
  let ?m = "VoicePipelineMetrics_init\<lparr>stt_start := 1700000000, rag_start := 1700000002,
      llm_start := 1700000004, tts_start := 1700000006\<rparr>"
  have unset: "stt_end ?m = 0" "rag_end ?m = 0" "llm_end ?m = 0" "tts_end ?m = 0"
    by (simp_all add: VoicePipelineMetrics_init_def)
  with report_zero_when_end_unset [of ?m] show ?thesis by simp
qed

section \<open>Synthesis\<close>

lemma synthesize_speech_written:
  "written (snd (snd (synthesize_speech_printed e t v None mo w))) = written w"
  by (simp add: synthesize_speech_printed_def synthesize_speech_rest_def synthesize_speech_except_def generate_and_join_def stamp_def Let_def truthy_def
      split: option.splits sum.splits prod.splits tts_answer.splits)

lemma synthesize_speech_result:
  assumes "synthesize_speech_printed e t v None mo w = (a, m', w')"
  shows "synth_calls w' = synth_calls w @ [t]"
    and "tts_requests w' =
           (if truthy (ELEVENLABS_API_KEY e) then tts_requests w @ [(t, v)] else tts_requests w)"
    and "a = (if truthy (ELEVENLABS_API_KEY e)
              then (case generate_and_join e (length (tts_requests w)) t v of Inl ex \<Rightarrow> [] | Inr b \<Rightarrow> b)
              else [])"
    and "stt_requests w' = stt_requests w"
    and "llm_requests w' = llm_requests w"
    and "written w' = written w"
    and "mo = None \<Longrightarrow> m' = None"
  using assms synthesize_speech_synth_calls [of e t v None mo w]
    synthesize_speech_tts_requests [of e t v None mo w]
    synthesize_speech_audio [of e t v mo w]
    synthesize_speech_other_logs [of e t v None mo w]
    synthesize_speech_written [of e t v mo w]
    synthesize_speech_untracked [of e t v None w]
  by simp_all

lemma synthesized_audio_append:
  "synthesized_audio e v n (xs @ ys) =
   synthesized_audio e v n xs @ synthesized_audio e v (n + length xs) ys"
  by (induction xs arbitrary: n) simp_all

lemma concat_synthesized_audio:
  "concat (synthesized_audio e v n ts) = concat (successful_audio e v n ts)"
  by (induction ts arbitrary: n) (simp_all split: sum.splits)

lemma streaming_body_tts:
  assumes "truthy (ELEVENLABS_API_KEY e)"
  shows "tts_requests (f_world (streaming_body e language T c s)) =
           tts_requests (f_world s) @
           map (\<lambda>t. (t, voice_for language))
             (if (T \<le> int (length (concat (buffer s @ [c]))) \<or> endswith_terminator c) \<and>
                 strip (concat (buffer s @ [c])) \<noteq> []
              then [strip (concat (buffer s @ [c]))] else [])"
    and "audio_chunks (streaming_body e language T c s) =
           audio_chunks s @
           synthesized_audio e (voice_for language) (length (tts_requests (f_world s)))
             (if (T \<le> int (length (concat (buffer s @ [c]))) \<or> endswith_terminator c) \<and>
                 strip (concat (buffer s @ [c])) \<noteq> []
              then [strip (concat (buffer s @ [c]))] else [])"
  using assms
  by (auto simp: streaming_body_def Let_def split: prod.splits dest: synthesize_speech_result)

lemma streaming_loop_tts:
  assumes "truthy (ELEVENLABS_API_KEY e)"
  shows "tts_requests (f_world (streaming_loop e language T incs s)) =
           tts_requests (f_world s) @
           map (\<lambda>t. (t, voice_for language)) (fst (chunker T (buffer s) incs)) \<and>
         audio_chunks (streaming_loop e language T incs s) =
           audio_chunks s @
           synthesized_audio e (voice_for language) (length (tts_requests (f_world s)))
             (fst (chunker T (buffer s) incs))"
proof (induction incs arbitrary: s)
  case Nil
  show ?case by simp
next
  case (Cons c cs)
  show ?case
    by (simp add: Cons.IH streaming_body_tts [OF assms] streaming_body_buffer
        generator_yield_frame Let_def)
qed

lemma streaming_flush_tts:
  assumes "truthy (ELEVENLABS_API_KEY e)"
  shows "tts_requests (f_world (streaming_flush e language s)) =
           tts_requests (f_world s) @ map (\<lambda>t. (t, voice_for language)) (trailing_chunk (buffer s))"
    and "audio_chunks (streaming_flush e language s) =
           audio_chunks s @
           synthesized_audio e (voice_for language) (length (tts_requests (f_world s)))
             (trailing_chunk (buffer s))"
  using assms
  by (auto simp: streaming_flush_def trailing_chunk_def Let_def split: prod.splits
      dest: synthesize_speech_result)

lemma stream_and_synthesize_tts:
  assumes "truthy (ELEVENLABS_API_KEY e)"
  shows "tts_requests (f_world (stream_and_synthesize e language T incs (frame_init m w))) =
           tts_requests w @
           map (\<lambda>t. (t, voice_for language))
             (emitted_chunks w (stream_and_synthesize e language T incs (frame_init m w)))"
    and "audio_chunks (stream_and_synthesize e language T incs (frame_init m w)) =
           synthesized_audio e (voice_for language) (length (tts_requests w))
             (emitted_chunks w (stream_and_synthesize e language T incs (frame_init m w)))"
  unfolding emitted_chunks_stream_and_synthesize
  by (simp_all add: stream_and_synthesize_def streaming_flush_tts [OF assms]
      generator_close_frame streaming_loop_tts [OF assms] streaming_loop_chunker
      synthesized_audio_append frame_init_def)

section \<open>A missing synthesis credential\<close>






section \<open>The pipelines up to the response stream\<close>












section \<open>Missing transcription or generation credential\<close>


lemma env_ok_fields:
  "truthy (OPENAI_API_KEY env_ok)" "truthy (ANTHROPIC_API_KEY env_ok)"
  "truthy (ELEVENLABS_API_KEY env_ok)"
  "whisper env_ok audio_file language =
     Inr \<lparr>tr_text = str ''What is RAG?'', tr_language = language, tr_duration = Some 2\<rparr>"
  "claude env_ok msg = ([str ''Hello'', str '' world.'', str '' Bye''], None)"
  "fs_write env_ok path audio = None"
  "clock env_ok n = 1700000000 + real n"
  by (simp_all add: env_ok_def truthy_def str_def)



section \<open>The synthesis timestamps\<close>

lemmas pipeline_eval =
  voice_pipeline_streaming_def streaming_response_def voice_pipeline_simple_def transcribe_audio_def
  retrieve_context_printed_def retrieve_context_rest_def context_fstring_def full_message_def stream_claude_response_open_def
  stream_claude_response_yield_def stream_claude_response_close_def generator_yield_def
  generator_close_def streaming_body_def streaming_flush_def stream_and_synthesize_def
  synthesize_speech_printed_def synthesize_speech_rest_def synthesize_speech_except_def generate_and_join_def frame_init_def stamp_def deref_def truthy_def voice_for_def
  DEFAULT_HEBREW_VOICE_ID_def DEFAULT_ENGLISH_VOICE_ID_def report_def
  VoicePipelineMetrics_init_def world_init_def env_ok_def join_audio_def

text \<open>
  Which synthesis calls touch the metrics. The call inside the loop passes the metrics
  object while \<open>audio_chunks\<close> is empty, so a first chunk emitted inside the loop records
  \<open>tts_start\<close> and \<open>tts_end\<close>, and every later chunk leaves the metrics as they are. The
  call after the loop never passes it: when no chunk left the loop, the chunk synthesized
  at stream end is the first of the request and records nothing.
\<close>

lemma generator_tts_stamps:
  "tts_start (f_metrics (generator_yield e s)) = tts_start (f_metrics s)"
  "tts_end (f_metrics (generator_yield e s)) = tts_end (f_metrics s)"
  "tts_start (f_metrics (generator_close e s)) = tts_start (f_metrics s)"
  "tts_end (f_metrics (generator_close e s)) = tts_end (f_metrics s)"
  by (simp_all add: generator_yield_def generator_close_def stream_claude_response_yield_def
      stream_claude_response_close_def stamp_def deref_def Let_def)

lemma streaming_flush_metrics: "f_metrics (streaming_flush e language s) = f_metrics s"
  by (simp add: streaming_flush_def Let_def split: prod.splits)

lemma streaming_body_later_chunk_metrics:
  "audio_chunks s \<noteq> [] \<Longrightarrow> f_metrics (streaming_body e language T c s) = f_metrics s"
  by (auto simp: streaming_body_def Let_def deref_def split: prod.splits
      dest: synthesize_speech_result)

lemma synthesize_speech_untracked_eq:
  "synthesize_speech_printed e t v None None w =
     ((if truthy (ELEVENLABS_API_KEY e)
       then (case generate_and_join e (length (tts_requests w)) t v of Inl ex \<Rightarrow> [] | Inr b \<Rightarrow> b)
       else []),
      None,
      w\<lparr>synth_calls := synth_calls w @ [t],
        tts_requests :=
          (if truthy (ELEVENLABS_API_KEY e) then tts_requests w @ [(t, v)] else tts_requests w)\<rparr>)"
  by (auto simp: synthesize_speech_printed_def synthesize_speech_rest_def
      synthesize_speech_except_def generate_and_join_def stamp_def Let_def split: sum.splits)

lemma synthesize_speech_tracked_eq:
  "synthesize_speech_printed e t v None (Some m) w =
     ((if truthy (ELEVENLABS_API_KEY e)
       then (case generate_and_join e (length (tts_requests w)) t v of Inl ex \<Rightarrow> [] | Inr b \<Rightarrow> b)
       else []),
      Some (if truthy (ELEVENLABS_API_KEY e)
            then m\<lparr>tts_start := clock e (ticks w), tts_end := clock e (Suc (ticks w))\<rparr>
            else m\<lparr>tts_start := clock e (ticks w)\<rparr>),
      w\<lparr>synth_calls := synth_calls w @ [t],
        ticks := (if truthy (ELEVENLABS_API_KEY e) then Suc (Suc (ticks w)) else Suc (ticks w)),
        tts_requests :=
          (if truthy (ELEVENLABS_API_KEY e) then tts_requests w @ [(t, v)] else tts_requests w)\<rparr>)"
  by (auto simp: synthesize_speech_printed_def synthesize_speech_rest_def
      synthesize_speech_except_def generate_and_join_def stamp_def Let_def split: sum.splits)

lemma streaming_body_first_chunk_metrics:
  assumes "audio_chunks s = []" and "truthy (ELEVENLABS_API_KEY e)"
    and "(T \<le> int (length (concat (buffer s @ [c]))) \<or> endswith_terminator c) \<and>
         strip (concat (buffer s @ [c])) \<noteq> []"
  shows "f_metrics (streaming_body e language T c s) =
           (f_metrics s)\<lparr>tts_start := clock e (ticks (f_world s)),
                         tts_end := clock e (Suc (ticks (f_world s)))\<rparr>"
  using assms
  by (simp add: streaming_body_def synthesize_speech_tracked_eq deref_def Let_def)

lemma streaming_body_no_emission:
  assumes "\<not> ((T \<le> int (length (concat (buffer s @ [c]))) \<or> endswith_terminator c) \<and>
              strip (concat (buffer s @ [c])) \<noteq> [])"
  shows "f_metrics (streaming_body e language T c s) = f_metrics s"
  using assms by (auto simp: streaming_body_def Let_def)

lemma streaming_loop_no_emission_tts:
  "fst (chunker T (buffer s) incs) = [] \<Longrightarrow>
   tts_start (f_metrics (streaming_loop e language T incs s)) = tts_start (f_metrics s) \<and>
   tts_end (f_metrics (streaming_loop e language T incs s)) = tts_end (f_metrics s)"
proof (induction incs arbitrary: s)
  case Nil
  show ?case by simp
next
  case (Cons c cs)
  let ?s = "streaming_body e language T c (generator_yield e s)"
  have quiet: "\<not> ((T \<le> int (length (concat (buffer s @ [c]))) \<or> endswith_terminator c) \<and>
                  strip (concat (buffer s @ [c])) \<noteq> [])"
    using Cons.prems by (auto simp: Let_def split: if_splits)
  then have "chunker T (buffer s) (c # cs) = chunker T (buffer s @ [c]) cs"
    by (auto simp: Let_def)
  moreover have "buffer ?s = buffer s @ [c]"
    using quiet by (simp add: streaming_body_buffer generator_yield_frame)
  ultimately have "fst (chunker T (buffer ?s) cs) = []"
    using Cons.prems by simp
  then have "tts_start (f_metrics (streaming_loop e language T cs ?s)) = tts_start (f_metrics ?s) \<and>
      tts_end (f_metrics (streaming_loop e language T cs ?s)) = tts_end (f_metrics ?s)"
    by (rule Cons.IH)
  moreover have "f_metrics ?s = f_metrics (generator_yield e s)"
    using quiet by (intro streaming_body_no_emission) (simp add: generator_yield_frame)
  ultimately show ?case
    by (simp add: generator_tts_stamps)
qed

lemma trailing_first_chunk_is_untracked:
  "fst (chunker T [] incs) = [] \<Longrightarrow>
   tts_start (f_metrics (stream_and_synthesize e language T incs (frame_init m w))) = tts_start m \<and>
   tts_end (f_metrics (stream_and_synthesize e language T incs (frame_init m w))) = tts_end m"
  using streaming_loop_no_emission_tts [of T "frame_init m w" incs e language]
  by (simp add: stream_and_synthesize_def streaming_flush_metrics generator_tts_stamps
      frame_init_def)

lemma run_hello:
  "voice_pipeline_streaming (env_ok\<lparr>claude := (\<lambda>msg. ([str ''Hello''], None))\<rparr>)
          (str ''q.wav'') (str ''he'') None None 200 world_init =
   (Inr \<lparr>transcript = str ''What is RAG?'', response = str ''Hello'', audio_size = 3,
          result_metrics =
            \<lparr>stt_latency_ms = 1000, rag_latency_ms = 1000, llm_first_token_ms = 1000,
             llm_total_ms = 2000, tts_latency_ms = 0, total_latency_ms = 0\<rparr>\<rparr>,
    \<lparr>stt_start = 1700000000, stt_end = 1700000001, rag_start = 1700000002,
     rag_end = 1700000003, llm_start = 1700000004,
     llm_first_token = 1700000005, llm_end = 1700000006, tts_start = 0,
     tts_end = 0\<rparr>,
    \<lparr>ticks = 7, stt_requests = [(str ''q.wav'', Some (str ''he''))],
     llm_requests = [full_message (context_fstring (str ''What is RAG?'') None) (str ''What is RAG?'')],
     tts_requests = [(str ''Hello'', DEFAULT_HEBREW_VOICE_ID)],
     synth_calls = [str ''Hello''], written = []\<rparr>)"
  by (simp add: pipeline_eval chunk_eval)

text \<open>
  C8 at a response that crosses no boundary. The single increment "Hello" stays in the buffer
  (5 characters, threshold 200, no terminator), so the first and only chunk of the request
  is synthesized after the loop, by the call of line 387, which passes no metrics: 3 bytes
  of audio come back, \<open>tts_start\<close> and \<open>tts_end\<close> are still 0, and the report gives 0 for the
  synthesis latency and the total latency.
\<close>

theorem first_chunk_at_stream_end_has_no_tts_timestamps:
  "fst (voice_pipeline_streaming (env_ok\<lparr>claude := (\<lambda>msg. ([str ''Hello''], None))\<rparr>)
          (str ''q.wav'') (str ''he'') None None 200 world_init) =
     Inr \<lparr>transcript = str ''What is RAG?'', response = str ''Hello'', audio_size = 3,
          result_metrics =
            \<lparr>stt_latency_ms = 1000, rag_latency_ms = 1000, llm_first_token_ms = 1000,
             llm_total_ms = 2000, tts_latency_ms = 0, total_latency_ms = 0\<rparr>\<rparr> \<and>
   synth_calls (snd (snd (voice_pipeline_streaming
          (env_ok\<lparr>claude := (\<lambda>msg. ([str ''Hello''], None))\<rparr>)
          (str ''q.wav'') (str ''he'') None None 200 world_init))) = [str ''Hello''] \<and>
   tts_start (fst (snd (voice_pipeline_streaming
          (env_ok\<lparr>claude := (\<lambda>msg. ([str ''Hello''], None))\<rparr>)
          (str ''q.wav'') (str ''he'') None None 200 world_init))) = 0 \<and>
   tts_end (fst (snd (voice_pipeline_streaming
          (env_ok\<lparr>claude := (\<lambda>msg. ([str ''Hello''], None))\<rparr>)
          (str ''q.wav'') (str ''he'') None None 200 world_init))) = 0"
  unfolding run_hello by simp

section \<open>Retrieval\<close>

lemma retrieve_context_printed_eq:
  "\<not> print_raises enc (take 50 query) \<Longrightarrow>
   retrieve_context enc e query video_id mo w =
     (Inr (fst (retrieve_context_printed e query video_id mo w)),
      snd (retrieve_context_printed e query video_id mo w))"
  by (simp add: retrieve_context_def retrieve_context_printed_def split_def Let_def)

text \<open>
  C10, as amended. For every query \<open>q\<close> and every optional scope id \<open>v\<close>,
  \<^verbatim>\<open>retrieve_context\<close> sends no request to a provider and writes no file. It raises
  \<^verbatim>\<open>UnicodeEncodeError\<close>, from the print of line 164, when stdout cannot encode the first 50
  characters of \<open>q\<close>. Otherwise it does not raise and returns exactly
  "Context for query: 'q' (video: s)", where \<open>s\<close> is \<open>v\<close> if \<open>v\<close> is supplied and is not the
  empty string, and "all" otherwise (\<^verbatim>\<open>video_id or 'all'\<close>). That string is never empty.
\<close>

theorem retrieve_context_placeholder:
  "(\<not> print_raises enc (take 50 query) \<longrightarrow>
      fst (retrieve_context enc e query video_id mo w) =
        Inr (str ''Context for query: '' @ [39] @ query @ [39] @ str '' (video: '' @
             (case video_id of None \<Rightarrow> str ''all'' | Some v \<Rightarrow> if v = [] then str ''all'' else v) @
             str '')'')) \<and>
   (print_raises enc (take 50 query) \<longrightarrow>
      fst (retrieve_context enc e query video_id mo w) = Inl UnicodeEncodeError) \<and>
   str ''Context for query: '' @ [39] @ query @ [39] @ str '' (video: '' @
     (case video_id of None \<Rightarrow> str ''all'' | Some v \<Rightarrow> if v = [] then str ''all'' else v) @
     str '')'' \<noteq> [] \<and>
   stt_requests (snd (snd (retrieve_context enc e query video_id mo w))) = stt_requests w \<and>
   llm_requests (snd (snd (retrieve_context enc e query video_id mo w))) = llm_requests w \<and>
   tts_requests (snd (snd (retrieve_context enc e query video_id mo w))) = tts_requests w \<and>
   synth_calls (snd (snd (retrieve_context enc e query video_id mo w))) = synth_calls w \<and>
   written (snd (snd (retrieve_context enc e query video_id mo w))) = written w"
  by (cases video_id; cases mo)
     (simp_all add: retrieve_context_def retrieve_context_rest_def context_fstring_def stamp_def
        str_def)

theorem retrieve_context_placeholder_witness:
  "\<not> print_raises utf8 (take 50 (str ''What is RAG?'')) \<and>
   fst (retrieve_context utf8 env_ok (str ''What is RAG?'') (Some (str ''v1'')) None world_init) =
     Inr (str ''Context for query: '' @ [39] @ str ''What is RAG?'' @ [39] @ str '' (video: v1)'') \<and>
   print_raises utf8 (take 50 [55296]) \<and>
   fst (retrieve_context utf8 env_ok [55296] (Some (str ''v1'')) None world_init) =
     Inl UnicodeEncodeError"
proof -
  have p: "\<not> print_raises utf8 (take 50 (str ''What is RAG?''))" "print_raises utf8 (take 50 [55296])"
    by (simp_all add: print_raises_def utf8_def str_def)
  show ?thesis
    using retrieve_context_placeholder
        [of utf8 "str ''What is RAG?''" env_ok "Some (str ''v1'')" None world_init]
      retrieve_context_placeholder [of utf8 "[55296]" env_ok "Some (str ''v1'')" None world_init] p
    by (simp add: str_def)
qed

theorem retrieve_context_counterexample:
  "fst (retrieve_context utf8 env_ok (str ''q'') (Some []) None world_init) \<noteq>
     Inr (str ''Context for query: '' @ [39] @ str ''q'' @ [39] @ str '' (video: '' @ [] @ str '')'') \<and>
   fst (retrieve_context utf8 env_ok [55296] None None world_init) = Inl UnicodeEncodeError"
  by (simp add: retrieve_context_def retrieve_context_rest_def context_fstring_def stamp_def
      str_def print_raises_def utf8_def)

section \<open>A missing synthesis credential\<close>

lemma synthesize_speech_rest_no_file:
  "synthesize_speech_rest enc e t voice_id None mo w =
   synthesize_speech_rest (\<lambda>c. True) e t voice_id None mo w"
  by (simp add: synthesize_speech_rest_def Let_def split: sum.splits)

lemma synthesize_speech_printed_eq:
  "\<not> print_raises enc (take 50 t) \<Longrightarrow>
   synthesize_speech enc e t voice_id None mo w =
     (Inr (fst (synthesize_speech_printed e t voice_id None mo w)),
      snd (synthesize_speech_printed e t voice_id None mo w))"
  by (simp add: synthesize_speech_def synthesize_speech_printed_def split_def Let_def
      synthesize_speech_rest_no_file [of enc])




section \<open>Synthesis failures\<close>

lemma generate_and_join_bytes:
  "elevenlabs e n t voice_id = Inr (AudioBytes b) \<Longrightarrow> b \<noteq> [] \<Longrightarrow>
   generate_and_join e n t voice_id = Inl TypeError"
  by (simp add: generate_and_join_def join_audio_def)

lemma synthesize_speech_failed_request:
  assumes "truthy (ELEVENLABS_API_KEY e)" and "\<not> print_raises enc (take 50 t)"
    and "generate_and_join e (length (tts_requests w)) t voice_id = Inl ex"
  shows "fst (synthesize_speech enc e t voice_id output_file mo w) = Inr []"
  using assms
  by (auto simp: synthesize_speech_def synthesize_speech_rest_def synthesize_speech_except_def
      generate_and_join_def stamp_def Let_def split: option.splits sum.splits)

text \<open>
  What holds of the recovery, for every behaviour of the provider, with the credential set:
  the chunks are fixed by the increments alone (\<open>chunker\<close> and \<open>trailing_chunk\<close>), a request
  is sent for each of them in order, whatever happened to the requests before it, the audio
  of a chunk is empty where \<^verbatim>\<open>generate\<close> or the join raised, and the combined audio is the
  concatenation of the audio of the requests for which neither raised.
\<close>

lemma synthesis_failure_is_chunk_scoped:
  assumes "truthy (ELEVENLABS_API_KEY e)"
  shows "emitted_chunks w (stream_and_synthesize e language T incs (frame_init m w)) =
           fst (chunker T [] incs) @ trailing_chunk (snd (chunker T [] incs))"
    and "tts_requests (f_world (stream_and_synthesize e language T incs (frame_init m w))) =
           tts_requests w @
           map (\<lambda>t. (t, voice_for language))
             (fst (chunker T [] incs) @ trailing_chunk (snd (chunker T [] incs)))"
    and "audio_chunks (stream_and_synthesize e language T incs (frame_init m w)) =
           synthesized_audio e (voice_for language) (length (tts_requests w))
             (fst (chunker T [] incs) @ trailing_chunk (snd (chunker T [] incs)))"
    and "concat (audio_chunks (stream_and_synthesize e language T incs (frame_init m w))) =
           concat (successful_audio e (voice_for language) (length (tts_requests w))
             (fst (chunker T [] incs) @ trailing_chunk (snd (chunker T [] incs))))"
  using stream_and_synthesize_tts [OF assms, of language T incs m w]
  by (simp_all add: emitted_chunks_stream_and_synthesize concat_synthesized_audio)

text \<open>
  C6 at a provider that answers as \<^verbatim>\<open>generate\<close> does when it is not asked to stream: with one
  \<^verbatim>\<open>bytes\<close> object. The response "A.", "B.", "C." gives three chunks. The second request
  raises; the first and the third succeed with 3 bytes each. All three requests are sent,
  but the join of line 283 raises \<^verbatim>\<open>TypeError\<close> on a \<^verbatim>\<open>bytes\<close> object, inside the \<^verbatim>\<open>try\<close>:
  the audio of the two successful chunks is empty as well, and so is the combined audio.
\<close>

theorem bytes_answer_gives_empty_audio:
  "elevenlabs (env_ok\<lparr>elevenlabs := (\<lambda>n t voice_id.
        if n = 1 then Inl (ProviderError (str ''503'')) else Inr (AudioBytes [1, 2, 3]))\<rparr>)
     0 (str ''A.'') (voice_for (str ''en'')) = Inr (AudioBytes [1, 2, 3]) \<and>
   fst (synthesize_speech utf8 (env_ok\<lparr>elevenlabs := (\<lambda>n t voice_id.
        if n = 1 then Inl (ProviderError (str ''503'')) else Inr (AudioBytes [1, 2, 3]))\<rparr>)
      (str ''A.'') (voice_for (str ''en'')) None None world_init) = Inr [] \<and>
   tts_requests (f_world (stream_and_synthesize (env_ok\<lparr>elevenlabs := (\<lambda>n t voice_id.
        if n = 1 then Inl (ProviderError (str ''503'')) else Inr (AudioBytes [1, 2, 3]))\<rparr>)
      (str ''en'') 100 [str ''A.'', str ''B.'', str ''C.'']
      (frame_init VoicePipelineMetrics_init world_init))) =
     [(str ''A.'', voice_for (str ''en'')), (str ''B.'', voice_for (str ''en'')),
      (str ''C.'', voice_for (str ''en''))] \<and>
   audio_chunks (stream_and_synthesize (env_ok\<lparr>elevenlabs := (\<lambda>n t voice_id.
        if n = 1 then Inl (ProviderError (str ''503'')) else Inr (AudioBytes [1, 2, 3]))\<rparr>)
      (str ''en'') 100 [str ''A.'', str ''B.'', str ''C.'']
      (frame_init VoicePipelineMetrics_init world_init)) = [[], [], []] \<and>
   concat (audio_chunks (stream_and_synthesize (env_ok\<lparr>elevenlabs := (\<lambda>n t voice_id.
        if n = 1 then Inl (ProviderError (str ''503'')) else Inr (AudioBytes [1, 2, 3]))\<rparr>)
      (str ''en'') 100 [str ''A.'', str ''B.'', str ''C.'']
      (frame_init VoicePipelineMetrics_init world_init))) = []"
proof -
  let ?e = "env_ok\<lparr>elevenlabs := (\<lambda>n t voice_id.
        if n = 1 then Inl (ProviderError (str ''503'')) else Inr (AudioBytes [1, 2, 3]))\<rparr>"
  have key: "truthy (ELEVENLABS_API_KEY ?e)"
    by (simp add: env_ok_fields)
  have chunks: "fst (chunker 100 [] [str ''A.'', str ''B.'', str ''C.'']) @
      trailing_chunk (snd (chunker 100 [] [str ''A.'', str ''B.'', str ''C.''])) =
      [str ''A.'', str ''B.'', str ''C.'']"
    by (simp add: chunk_eval)
  have audio: "synthesized_audio ?e (voice_for (str ''en'')) 0 [str ''A.'', str ''B.'', str ''C.'']
      = [[], [], []]"
    by (simp add: generate_and_join_def join_audio_def)
  have wi: "tts_requests world_init = []"
    by (simp add: world_init_def)
  have one: "fst (synthesize_speech utf8 ?e (str ''A.'') (voice_for (str ''en'')) None None
      world_init) = Inr []"
    by (rule synthesize_speech_failed_request [OF key, where ex = TypeError])
       (simp_all add: print_raises_def utf8_def str_def generate_and_join_def join_audio_def wi)
  show ?thesis
    unfolding synthesis_failure_is_chunk_scoped(2,3) [OF key] chunks wi
    using audio one by simp
qed

section \<open>What the chunks are made of\<close>

lemma chunker_groups:
  "\<exists>gs. concat gs = buf @ incs \<and>
        fst (chunker T buf incs) @ trailing_chunk (snd (chunker T buf incs)) =
          filter (\<lambda>t. t \<noteq> []) (map (\<lambda>g. strip (concat g)) gs)"
proof (induction incs arbitrary: buf)
  case Nil
  have "concat [buf] = buf @ []" by simp
  moreover have "fst (chunker T buf []) @ trailing_chunk (snd (chunker T buf [])) =
      filter (\<lambda>t. t \<noteq> []) (map (\<lambda>g. strip (concat g)) [buf])"
    by (auto simp: trailing_chunk_def strip_def)
  ultimately show ?case by blast
next
  case (Cons c cs)
  show ?case
  proof (cases "(T \<le> int (length (concat (buf @ [c]))) \<or> endswith_terminator c) \<and>
                strip (concat (buf @ [c])) \<noteq> []")
    case True
    then have step: "chunker T buf (c # cs) =
        (strip (concat (buf @ [c])) # fst (chunker T [] cs), snd (chunker T [] cs))"
      by (auto simp: Let_def)
    from Cons.IH [of "[]"] obtain gs where gs: "concat gs = cs"
        "fst (chunker T [] cs) @ trailing_chunk (snd (chunker T [] cs)) =
          filter (\<lambda>t. t \<noteq> []) (map (\<lambda>g. strip (concat g)) gs)"
      by auto
    have "concat ((buf @ [c]) # gs) = buf @ c # cs"
      using gs(1) by simp
    moreover have "fst (chunker T buf (c # cs)) @ trailing_chunk (snd (chunker T buf (c # cs))) =
        filter (\<lambda>t. t \<noteq> []) (map (\<lambda>g. strip (concat g)) ((buf @ [c]) # gs))"
      using True gs(2) by (simp add: step)
    ultimately show ?thesis by blast
  next
    case False
    then have step: "chunker T buf (c # cs) = chunker T (buf @ [c]) cs"
      by (auto simp: Let_def)
    from Cons.IH [of "buf @ [c]"] show ?thesis
      unfolding step by simp
  qed
qed

text \<open>
  C1, as amended. Streaming mode calls \<^verbatim>\<open>synthesize_speech\<close> with the stripped buffer, and
  only when the stripped buffer is not empty. So no chunk has empty text. The increments
  fall into consecutive runs \<open>gs\<close>, in order and with none left out, such that the chunks
  are the concatenations of the runs with leading and trailing whitespace stripped, in the
  same order, without those that are empty after stripping. The chunks joined are therefore
  the increments joined except for whitespace at the two ends of a run; in particular both
  have the same characters in the same order once whitespace is deleted.
\<close>

theorem chunks_nonempty_and_stripped_runs_of_increments:
  "(\<forall>t \<in> set (emitted_chunks w (stream_and_synthesize e language T incs (frame_init m w))).
      t \<noteq> []) \<and>
   (\<exists>gs. concat gs = incs \<and>
      emitted_chunks w (stream_and_synthesize e language T incs (frame_init m w)) =
        filter (\<lambda>t. t \<noteq> []) (map (\<lambda>g. strip (concat g)) gs)) \<and>
   filter (\<lambda>c. \<not> is_space c)
     (concat (emitted_chunks w (stream_and_synthesize e language T incs (frame_init m w)))) =
   filter (\<lambda>c. \<not> is_space c) (concat incs)"
proof -
  let ?out = "fst (chunker T [] incs)" and ?rest = "snd (chunker T [] incs)"
  have nonempty: "\<forall>t \<in> set (?out @ trailing_chunk ?rest). t \<noteq> []"
    using chunker_nonempty [of _ T "[]" incs] by (auto simp: trailing_chunk_def)
  have runs: "\<exists>gs. concat gs = incs \<and>
      ?out @ trailing_chunk ?rest = filter (\<lambda>t. t \<noteq> []) (map (\<lambda>g. strip (concat g)) gs)"
    using chunker_groups [of "[]" incs T] by simp
  have "filter (\<lambda>c. \<not> is_space c) (concat (?out @ trailing_chunk ?rest)) =
        filter (\<lambda>c. \<not> is_space c) (concat ?out) @ filter (\<lambda>c. \<not> is_space c) (concat ?rest)"
    by (simp add: trailing_chunk_filter)
  also have "\<dots> = filter (\<lambda>c. \<not> is_space c) (concat incs)"
    using chunker_filter [of T "[]" incs] by simp
  finally show ?thesis
    using nonempty runs by (simp only: emitted_chunks_stream_and_synthesize simp_thms)
qed

theorem chunks_nonempty_and_stripped_runs_of_increments_witness:
  "emitted_chunks world_init
     (stream_and_synthesize env_ok (str ''he'') 100
        [str ''Hello'', str '' big'', str '' world.'', str '' Bye'', str '' now '']
        (frame_init VoicePipelineMetrics_init world_init)) =
   [str ''Hello big world.'', str ''Bye now''] \<and>
   str ''Hello big world.'' \<noteq> [] \<and> str ''Bye now'' \<noteq> [] \<and>
   [str ''Hello big world.'', str ''Bye now''] =
     filter (\<lambda>t. t \<noteq> []) (map (\<lambda>g. strip (concat g))
       [[str ''Hello'', str '' big'', str '' world.''], [str '' Bye'', str '' now '']]) \<and>
   (\<exists>gs. concat gs = [str ''Hello'', str '' big'', str '' world.'', str '' Bye'', str '' now ''] \<and>
      [str ''Hello big world.'', str ''Bye now''] =
        filter (\<lambda>t. t \<noteq> []) (map (\<lambda>g. strip (concat g)) gs)) \<and>
   filter (\<lambda>c. \<not> is_space c)
     (concat (emitted_chunks world_init
        (stream_and_synthesize env_ok (str ''he'') 100
           [str ''Hello'', str '' big'', str '' world.'', str '' Bye'', str '' now '']
           (frame_init VoicePipelineMetrics_init world_init)))) =
   str ''Hellobigworld.Byenow''"
proof -
  have chunks: "emitted_chunks world_init
     (stream_and_synthesize env_ok (str ''he'') 100
        [str ''Hello'', str '' big'', str '' world.'', str '' Bye'', str '' now '']
        (frame_init VoicePipelineMetrics_init world_init)) =
     [str ''Hello big world.'', str ''Bye now'']"
    by (simp add: emitted_chunks_stream_and_synthesize chunk_eval)
  have incs: "filter (\<lambda>c. \<not> is_space c)
      (concat [str ''Hello'', str '' big'', str '' world.'', str '' Bye'', str '' now '']) =
     str ''Hellobigworld.Byenow''"
    by (simp add: chunk_eval)
  have runs: "[str ''Hello big world.'', str ''Bye now''] =
     filter (\<lambda>t. t \<noteq> []) (map (\<lambda>g. strip (concat g))
       [[str ''Hello'', str '' big'', str '' world.''], [str '' Bye'', str '' now '']])"
    by (simp add: chunk_eval)
  have ne: "str ''Hello big world.'' \<noteq> []" "str ''Bye now'' \<noteq> []"
    by (simp_all add: str_def)
  note th = chunks_nonempty_and_stripped_runs_of_increments
      [of world_init env_ok "str ''he''" 100
          "[str ''Hello'', str '' big'', str '' world.'', str '' Bye'', str '' now '']"
          VoicePipelineMetrics_init, unfolded chunks incs]
  show ?thesis
    unfolding chunks using th runs ne by blast
qed

theorem chunks_concat_counterexample:
  "concat (emitted_chunks world_init
     (stream_and_synthesize env_ok (str ''he'') 100 [str ''Hello'', str '' world.'', str '' Bye'']
        (frame_init VoicePipelineMetrics_init world_init))) \<noteq>
   concat [str ''Hello'', str '' world.'', str '' Bye'']"
  by (simp add: emitted_chunks_stream_and_synthesize chunk_eval)

section \<open>Retrieval inside the pipeline\<close>







end
